theory Spec2Isabelle
  imports Main "HOL-Library.Word"
begin

section \<open>JavaScript strings and the built-ins the script calls\<close>

text \<open>
  A JavaScript string is a sequence of 16-bit code units. String literals of the script
  are written with \<open>lit\<close>, which maps each character of an ASCII literal to its code unit.
\<close>

type_synonym jsstring = "16 word list"

definition lit :: "string \<Rightarrow> jsstring" where
  "lit s = map (\<lambda>c. of_nat (of_char c)) s"

datatype error = TypeError | URIError | SyntaxError

text \<open>
  \<open>String.prototype.trim\<close> removes the code units that ECMAScript calls WhiteSpace or
  LineTerminator from both ends of the string.
\<close>

definition js_whitespace :: "16 word \<Rightarrow> bool" where
  "js_whitespace c \<longleftrightarrow>
     c \<in> {0x0009, 0x000A, 0x000B, 0x000C, 0x000D, 0x0020, 0x00A0, 0x1680,
          0x2028, 0x2029, 0x202F, 0x205F, 0x3000, 0xFEFF}
     \<or> (0x2000 \<le> c \<and> c \<le> 0x200A)"

definition trim :: "jsstring \<Rightarrow> jsstring" where
  "trim s = rev (dropWhile js_whitespace (rev (dropWhile js_whitespace s)))"

text \<open>
  \<open>encodeURIComponent\<close>: the unreserved characters are kept, every other code point is
  written as the percent-escaped octets of its UTF-8 encoding, and a surrogate code unit
  that is not part of a pair raises \<open>URIError\<close>.
\<close>

definition uri_unreserved :: "16 word \<Rightarrow> bool" where
  "uri_unreserved c \<longleftrightarrow>
     (0x41 \<le> c \<and> c \<le> 0x5A) \<or> (0x61 \<le> c \<and> c \<le> 0x7A) \<or> (0x30 \<le> c \<and> c \<le> 0x39)
     \<or> c \<in> {0x2D, 0x5F, 0x2E, 0x21, 0x7E, 0x2A, 0x27, 0x28, 0x29}"

definition high_surrogate :: "16 word \<Rightarrow> bool" where
  "high_surrogate c \<longleftrightarrow> 0xD800 \<le> c \<and> c \<le> 0xDBFF"

definition low_surrogate :: "16 word \<Rightarrow> bool" where
  "low_surrogate c \<longleftrightarrow> 0xDC00 \<le> c \<and> c \<le> 0xDFFF"

definition pair_code_point :: "16 word \<Rightarrow> 16 word \<Rightarrow> nat" where
  "pair_code_point hi lo = (unat hi - 0xD800) * 0x400 + (unat lo - 0xDC00) + 0x10000"

definition utf8 :: "nat \<Rightarrow> nat list" where
  "utf8 cp =
     (if cp < 0x80 then [cp]
      else if cp < 0x800 then [0xC0 + cp div 64, 0x80 + cp mod 64]
      else if cp < 0x10000 then
        [0xE0 + cp div 4096, 0x80 + (cp div 64) mod 64, 0x80 + cp mod 64]
      else
        [0xF0 + cp div 262144, 0x80 + (cp div 4096) mod 64,
         0x80 + (cp div 64) mod 64, 0x80 + cp mod 64])"

definition hex_digit :: "nat \<Rightarrow> 16 word" where
  "hex_digit d = lit ''0123456789ABCDEF'' ! (d mod 16)"

definition percent_octets :: "nat list \<Rightarrow> jsstring" where
  "percent_octets bs = concat (map (\<lambda>b. [0x25, hex_digit (b div 16), hex_digit b]) bs)"

fun prepend :: "jsstring \<Rightarrow> error + jsstring \<Rightarrow> error + jsstring" where
  "prepend a (Inl e) = Inl e"
| "prepend a (Inr b) = Inr (a @ b)"

fun encodeURIComponent :: "jsstring \<Rightarrow> error + jsstring" where
  "encodeURIComponent [] = Inr []"
| "encodeURIComponent [c] =
     (if uri_unreserved c then Inr [c]
      else if high_surrogate c \<or> low_surrogate c then Inl URIError
      else Inr (percent_octets (utf8 (unat c))))"
| "encodeURIComponent (c # d # ds) =
     (if uri_unreserved c then prepend [c] (encodeURIComponent (d # ds))
      else if low_surrogate c then Inl URIError
      else if high_surrogate c then
        (if low_surrogate d
         then prepend (percent_octets (utf8 (pair_code_point c d))) (encodeURIComponent ds)
         else Inl URIError)
      else prepend (percent_octets (utf8 (unat c))) (encodeURIComponent (d # ds)))"

section \<open>JavaScript values\<close>

text \<open>
  The result of \<open>response.json()\<close> is any JSON value; reading a property that is absent
  gives \<open>undefined\<close>. The number type is a parameter: the script only ever converts a number
  to a string or tests its truthiness, and both are operations of the JavaScript runtime
  (\<open>Number::toString\<close>, which yields ASCII text, and \<open>ToBoolean\<close>). \<open>VHost\<close> is an object of
  the browser, such as the DOM element that \<open>window.name\<close> yields when the script has not
  assigned \<open>name\<close> and the document holds an element of that id; it carries the text that
  \<open>ToString\<close> gives for it (\<open>[object HTMLElement]\<close> for most elements). No response holds one.
\<close>

datatype 'n jsval =
    VUndefined
  | VNull
  | VBool bool
  | VNum 'n
  | VStr jsstring
  | VArr "'n jsval list"
  | VObj "(jsstring \<times> 'n jsval) list"
  | VHost jsstring

record 'n runtime =
  num_to_string :: "'n \<Rightarrow> string"
  num_truthy :: "'n \<Rightarrow> bool"

text \<open>
  Property access \<open>v.k\<close>. On \<open>undefined\<close> and \<open>null\<close> it raises \<open>TypeError\<close>. An object holds
  its own properties as an association list. The property names the script reads
  (\<open>status\<close>, \<open>text\<close>, \<open>name\<close>, \<open>history\<close>, \<open>coordinates\<close>, \<open>lat\<close>, \<open>lng\<close>, \<open>message\<close>,
  \<open>audio_url\<close>) are not defined on any built-in prototype, so on every other value, and
  on an object that lacks the property, the result is \<open>undefined\<close>.
\<close>

fun get_prop :: "'n jsval \<Rightarrow> jsstring \<Rightarrow> error + 'n jsval" where
  "get_prop VUndefined k = Inl TypeError"
| "get_prop VNull k = Inl TypeError"
| "get_prop (VObj kvs) k = Inr (case map_of kvs k of None \<Rightarrow> VUndefined | Some v \<Rightarrow> v)"
| "get_prop v k = Inr VUndefined"

text \<open>\<open>ToBoolean\<close>, as used by \<open>!text\<close>, \<open>||\<close> and \<open>if (data.audio_url)\<close>.\<close>

fun truthy :: "'n runtime \<Rightarrow> 'n jsval \<Rightarrow> bool" where
  "truthy rt VUndefined = False"
| "truthy rt VNull = False"
| "truthy rt (VBool b) = b"
| "truthy rt (VNum n) = num_truthy rt n"
| "truthy rt (VStr s) = (s \<noteq> [])"
| "truthy rt (VArr xs) = True"
| "truthy rt (VObj kvs) = True"
| "truthy rt (VHost t) = True"

text \<open>
  \<open>ToString\<close>, as applied by a template literal and by a DOM attribute of type DOMString.
  An array is joined with commas, \<open>undefined\<close> and \<open>null\<close> elements giving the empty string.
  A plain object gives \<open>[object Object]\<close>, unless it has an own property \<open>toString\<close>: a JSON
  value is never callable, so the conversion then raises \<open>TypeError\<close>.
\<close>

fun to_string :: "'n runtime \<Rightarrow> 'n jsval \<Rightarrow> error + jsstring"
  and join_elems :: "'n runtime \<Rightarrow> 'n jsval list \<Rightarrow> error + jsstring"
  and elem_string :: "'n runtime \<Rightarrow> 'n jsval \<Rightarrow> error + jsstring" where
  "to_string rt VUndefined = Inr (lit ''undefined'')"
| "to_string rt VNull = Inr (lit ''null'')"
| "to_string rt (VBool b) = Inr (lit (if b then ''true'' else ''false''))"
| "to_string rt (VNum n) = Inr (lit (num_to_string rt n))"
| "to_string rt (VStr s) = Inr s"
| "to_string rt (VArr xs) = join_elems rt xs"
| "to_string rt (VObj kvs) =
     (if lit ''toString'' \<in> fst ` set kvs then Inl TypeError
      else Inr (lit ''[object Object]''))"
| "to_string rt (VHost t) = Inr t"
| "join_elems rt [] = Inr []"
| "join_elems rt [x] = elem_string rt x"
| "join_elems rt (x # y # ys) =
     (case elem_string rt x of
        Inl e \<Rightarrow> Inl e
      | Inr a \<Rightarrow> prepend (a @ lit '','') (join_elems rt (y # ys)))"
| "elem_string rt VUndefined = Inr []"
| "elem_string rt VNull = Inr []"
| "elem_string rt v = to_string rt v"

text \<open>
  Assigning to \<open>innerText\<close> converts the value with \<open>ToString\<close>, except that \<open>null\<close> becomes
  the empty string (the attribute is declared \<open>LegacyNullToEmptyString\<close>).
\<close>

fun inner_text_of :: "'n runtime \<Rightarrow> 'n jsval \<Rightarrow> error + jsstring" where
  "inner_text_of rt VNull = Inr []"
| "inner_text_of rt v = to_string rt v"

section \<open>The page\<close>

text \<open>
  The elements the script looks up by id are taken to exist, as the script itself assumes
  at load time. The record holds the properties the script reads or writes, the two
  globals \<open>window.currentScanText\<close> and \<open>window.currentScanLang\<close>, and \<open>effects\<close>, the
  chronological log of everything the script does to the page and to the outside:
  property writes, requests, console records and audio playback. A DOM property holds
  the string the script assigned to it. What the browser makes of the markup assigned to
  \<open>innerHTML\<close> is not part of a handler: it is accounted for between handlers, in the
  lifetime of the page below.
\<close>

datatype element =
    UserQuery | ChatBox | LangSelector | ScanResultOverlay
  | LandmarkName | LandmarkDesc | MapLink

datatype global_name = CurrentScanText | CurrentScanLang

datatype http_method = GET | POST

datatype jsfile = File (file_name: jsstring) (file_bytes: "8 word list")

datatype body = NoBody | FormData "(jsstring \<times> jsfile) list"

datatype 'n effect =
    SetValue element jsstring
  | SetInnerHTML element jsstring
  | SetInnerText element jsstring
  | SetHref element jsstring
  | ClassListRemove element jsstring
  | ClassListAdd element jsstring
  | ScrollToEnd element
  | SetWindow global_name "'n jsval"
  | Fetch http_method jsstring body
  | ConsoleError jsstring error
  | AudioPlay jsstring

record 'n page =
  user_query_value :: jsstring
  chat_box_innerHTML :: jsstring
  lang_selector_value :: jsstring
  scan_overlay_hidden :: bool
  landmark_name_innerText :: jsstring
  landmark_desc_innerText :: jsstring
  map_link_href :: jsstring
  currentScanText :: "'n jsval"
  currentScanLang :: "'n jsval"
  effects :: "'n effect list"

definition emit :: "'n effect \<Rightarrow> 'n page \<Rightarrow> 'n page" where
  "emit e s = s\<lparr>effects := effects s @ [e]\<rparr>"

definition set_user_query_value :: "jsstring \<Rightarrow> 'n page \<Rightarrow> 'n page" where
  "set_user_query_value v s = emit (SetValue UserQuery v) (s\<lparr>user_query_value := v\<rparr>)"

definition set_chat_box_innerHTML :: "jsstring \<Rightarrow> 'n page \<Rightarrow> 'n page" where
  "set_chat_box_innerHTML v s = emit (SetInnerHTML ChatBox v) (s\<lparr>chat_box_innerHTML := v\<rparr>)"

definition set_landmark_name :: "jsstring \<Rightarrow> 'n page \<Rightarrow> 'n page" where
  "set_landmark_name v s =
     emit (SetInnerText LandmarkName v) (s\<lparr>landmark_name_innerText := v\<rparr>)"

definition set_landmark_desc :: "jsstring \<Rightarrow> 'n page \<Rightarrow> 'n page" where
  "set_landmark_desc v s =
     emit (SetInnerText LandmarkDesc v) (s\<lparr>landmark_desc_innerText := v\<rparr>)"

definition set_map_link_href :: "jsstring \<Rightarrow> 'n page \<Rightarrow> 'n page" where
  "set_map_link_href v s = emit (SetHref MapLink v) (s\<lparr>map_link_href := v\<rparr>)"

definition set_overlay_hidden :: "bool \<Rightarrow> 'n page \<Rightarrow> 'n page" where
  "set_overlay_hidden h s =
     emit ((if h then ClassListAdd else ClassListRemove) ScanResultOverlay (lit ''hidden''))
          (s\<lparr>scan_overlay_hidden := h\<rparr>)"

definition set_currentScanText :: "'n jsval \<Rightarrow> 'n page \<Rightarrow> 'n page" where
  "set_currentScanText v s = emit (SetWindow CurrentScanText v) (s\<lparr>currentScanText := v\<rparr>)"

definition set_currentScanLang :: "'n jsval \<Rightarrow> 'n page \<Rightarrow> 'n page" where
  "set_currentScanLang v s = emit (SetWindow CurrentScanLang v) (s\<lparr>currentScanLang := v\<rparr>)"

section \<open>Asynchronous functions, \<open>try\<close> and \<open>catch\<close>\<close>

text \<open>
  A block of statements returns the exception it raised, if any, with the page as it was
  when the block stopped. An \<open>async\<close> function runs until its first \<open>await\<close> and is resumed
  when the awaited promise settles. Each function of the script awaits \<open>fetch\<close> and then
  \<open>response.json()\<close> with no statement in between, so the two are one suspension whose
  outcome is either a rejection or the decoded body. \<open>Threw\<close> is an exception that leaves
  the function uncaught (the promise it returned rejects).
\<close>

type_synonym 'n block = "'n page \<Rightarrow> error option \<times> 'n page"

datatype progress = Returned | Awaiting | Threw error

datatype 'n fetched = Rejected error | Body "'n jsval"

fun catch_with :: "(error \<Rightarrow> 'n block) \<Rightarrow> error option \<times> 'n page \<Rightarrow> error option \<times> 'n page" where
  "catch_with handler (None, s) = (None, s)"
| "catch_with handler (Some e, s) = handler e s"

fun settled :: "error option \<times> 'n page \<Rightarrow> progress \<times> 'n page" where
  "settled (None, s) = (Returned, s)"
| "settled (Some e, s) = (Threw e, s)"

section \<open>1. Chatbot\<close>

definition user_msg :: "jsstring \<Rightarrow> jsstring" where
  \<open>user_msg query = lit ''<div class="user-msg"><strong>You:</strong> '' @ query @ lit ''</div>''\<close>

definition bot_msg :: "jsstring \<Rightarrow> jsstring" where
  \<open>bot_msg text = lit ''<div class="bot-msg"><strong>AI:</strong> '' @ text @ lit ''</div>''\<close>

definition bot_msg_error :: jsstring where
  \<open>bot_msg_error = lit ''<div class="bot-msg error">Sorry, I encountered an error.</div>''\<close>

definition ask_url :: "jsstring \<Rightarrow> jsstring \<Rightarrow> jsstring" where
  "ask_url encoded_query lang =
     lit ''/api/chatbot/ask?query='' @ encoded_query @ lit ''&lang='' @ lang"

definition chat_catch :: "error \<Rightarrow> 'n block" where
  "chat_catch err s =
     (let s1 = emit (ConsoleError (lit ''Chat Error:'') err) s
      in (None, set_chat_box_innerHTML (chat_box_innerHTML s1 @ bot_msg_error) s1))"

text \<open>\<open>sendChatMessage\<close> up to \<open>await fetch(...)\<close>.\<close>

definition sendChatMessage :: "'n page \<Rightarrow> progress \<times> 'n page" where
  "sendChatMessage s =
     (let lang = lang_selector_value s;
          query = trim (user_query_value s)
      in if query = [] then (Returned, s)
         else
           let s1 = set_chat_box_innerHTML (chat_box_innerHTML s @ user_msg query) s;
               s2 = set_user_query_value [] s1
           in (case encodeURIComponent query of
                 Inl err \<Rightarrow> settled (chat_catch err s2)
               | Inr q \<Rightarrow> (Awaiting, emit (Fetch POST (ask_url q lang) NoBody) s2)))"

text \<open>The rest of the \<open>try\<close> block, from the settled request on.\<close>

definition chat_after_fetch :: "'n runtime \<Rightarrow> 'n fetched \<Rightarrow> 'n block" where
  "chat_after_fetch rt r s =
     (case r of
        Rejected err \<Rightarrow> (Some err, s)
      | Body data \<Rightarrow>
          (case get_prop data (lit ''status'') of
             Inl err \<Rightarrow> (Some err, s)
           | Inr st \<Rightarrow>
               if st = VStr (lit ''success'') then
                 (case get_prop data (lit ''text'') of
                    Inl err \<Rightarrow> (Some err, s)
                  | Inr t \<Rightarrow>
                      (case to_string rt t of
                         Inl err \<Rightarrow> (Some err, s)
                       | Inr text \<Rightarrow>
                           (None, emit (ScrollToEnd ChatBox)
                              (set_chat_box_innerHTML (chat_box_innerHTML s @ bot_msg text) s))))
               else (None, s)))"

definition sendChatMessage_resumed :: "'n runtime \<Rightarrow> 'n fetched \<Rightarrow> 'n page \<Rightarrow> progress \<times> 'n page" where
  "sendChatMessage_resumed rt r s = settled (catch_with chat_catch (chat_after_fetch rt r s))"

section \<open>2. Image recognition\<close>

definition directions_prefix :: jsstring where
  "directions_prefix = lit ''https://www.google.com/maps/dir/?api=1&destination=''"

text \<open>The template literal of the navigation link, evaluated left to right.\<close>

definition directions_url :: "'n runtime \<Rightarrow> 'n jsval \<Rightarrow> error + jsstring" where
  "directions_url rt data =
     (case get_prop data (lit ''coordinates'') of
        Inl err \<Rightarrow> Inl err
      | Inr c \<Rightarrow>
          (case get_prop c (lit ''lat'') of
             Inl err \<Rightarrow> Inl err
           | Inr lat \<Rightarrow>
               (case to_string rt lat of
                  Inl err \<Rightarrow> Inl err
                | Inr lat_s \<Rightarrow>
                    (case get_prop c (lit ''lng'') of
                       Inl err \<Rightarrow> Inl err
                     | Inr lng \<Rightarrow>
                         (case to_string rt lng of
                            Inl err \<Rightarrow> Inl err
                          | Inr lng_s \<Rightarrow>
                              Inr (directions_prefix @ lat_s @ lit '','' @ lng_s))))))"

text \<open>The value of \<open>data.k\<close> as \<open>innerText\<close> receives it.\<close>

definition prop_text :: "'n runtime \<Rightarrow> 'n jsval \<Rightarrow> jsstring \<Rightarrow> error + jsstring" where
  "prop_text rt data k =
     (case get_prop data k of Inl err \<Rightarrow> Inl err | Inr v \<Rightarrow> inner_text_of rt v)"

definition scan_success :: "'n runtime \<Rightarrow> 'n jsval \<Rightarrow> 'n block" where
  "scan_success rt data s =
     (case prop_text rt data (lit ''name'') of
        Inl err \<Rightarrow> (Some err, s)
      | Inr name \<Rightarrow>
          let s1 = set_landmark_name name s in
          (case prop_text rt data (lit ''history'') of
             Inl err \<Rightarrow> (Some err, s1)
           | Inr history \<Rightarrow>
               let s2 = set_landmark_desc history s1 in
               (case directions_url rt data of
                  Inl err \<Rightarrow> (Some err, s2)
                | Inr url \<Rightarrow>
                    let s3 = set_map_link_href url s2 in
                    (case get_prop data (lit ''history'') of
                       Inl err \<Rightarrow> (Some err, s3)
                     | Inr h \<Rightarrow>
                         let s4 = set_currentScanText h s3
                         in (None, set_currentScanLang (VStr (lang_selector_value s4)) s4)))))"

definition scan_other :: "'n runtime \<Rightarrow> 'n jsval \<Rightarrow> 'n block" where
  "scan_other rt data s =
     (let s1 = set_landmark_name (lit ''Unknown Landmark'') s
      in case prop_text rt data (lit ''message'') of
           Inl err \<Rightarrow> (Some err, s1)
         | Inr message \<Rightarrow> (None, set_landmark_desc message s1))"

definition scan_after_fetch :: "'n runtime \<Rightarrow> 'n fetched \<Rightarrow> 'n block" where
  "scan_after_fetch rt r s =
     (case r of
        Rejected err \<Rightarrow> (Some err, s)
      | Body data \<Rightarrow>
          (case get_prop data (lit ''status'') of
             Inl err \<Rightarrow> (Some err, s)
           | Inr st \<Rightarrow>
               if st = VStr (lit ''success'') then scan_success rt data s
               else scan_other rt data s))"

definition scan_catch :: "error \<Rightarrow> 'n block" where
  "scan_catch err s =
     (let s1 = emit (ConsoleError (lit ''Scan Error:'') err) s;
          s2 = set_landmark_name (lit ''Error'') s1
      in (None, set_landmark_desc (lit ''Could not reach the vision server.'') s2))"

text \<open>
  The \<open>change\<close> handler of the camera input, up to \<open>await fetch(...)\<close>. Its argument is
  \<open>event.target.files[0]\<close>, absent when no file is selected.
\<close>

definition camera_input_change :: "jsfile option \<Rightarrow> 'n page \<Rightarrow> progress \<times> 'n page" where
  "camera_input_change selected s =
     (case selected of
        None \<Rightarrow> (Returned, s)
      | Some f \<Rightarrow>
          let s1 = set_landmark_name (lit ''Analyzing Landmark...'') s;
              s2 = set_overlay_hidden False s1
          in (Awaiting,
              emit (Fetch POST (lit ''/api/recognition/scan'') (FormData [(lit ''file'', f)])) s2))"

definition camera_input_change_resumed ::
  "'n runtime \<Rightarrow> 'n fetched \<Rightarrow> 'n page \<Rightarrow> progress \<times> 'n page" where
  "camera_input_change_resumed rt r s =
     settled (catch_with scan_catch (scan_after_fetch rt r s))"

section \<open>3. Voice generation and playback\<close>

definition voice_url :: "jsstring \<Rightarrow> jsstring \<Rightarrow> jsstring" where
  "voice_url encoded_text lang =
     lit ''/api/chatbot/voice-guide?text='' @ encoded_text @ lit ''&lang='' @ lang"

definition voice_catch :: "error \<Rightarrow> 'n block" where
  "voice_catch err s = (None, emit (ConsoleError (lit ''Voice Error:'') err) s)"

text \<open>The template literal of the request: \<open>encodeURIComponent(text)\<close>, then \<open>lang\<close>.\<close>

definition voice_request :: "'n runtime \<Rightarrow> 'n jsval \<Rightarrow> 'n jsval \<Rightarrow> error + jsstring" where
  "voice_request rt text lang =
     (case to_string rt text of
        Inl err \<Rightarrow> Inl err
      | Inr t \<Rightarrow>
          (case encodeURIComponent t of
             Inl err \<Rightarrow> Inl err
           | Inr enc \<Rightarrow>
               (case to_string rt lang of
                  Inl err \<Rightarrow> Inl err
                | Inr l \<Rightarrow> Inr (voice_url enc l))))"

definition playResultVoice :: "'n runtime \<Rightarrow> 'n page \<Rightarrow> progress \<times> 'n page" where
  "playResultVoice rt s =
     (let text = currentScanText s;
          lang = (if truthy rt (currentScanLang s) then currentScanLang s else VStr (lit ''ta''))
      in if \<not> truthy rt text then (Returned, s)
         else (case voice_request rt text lang of
                 Inl err \<Rightarrow> settled (voice_catch err s)
               | Inr url \<Rightarrow> (Awaiting, emit (Fetch GET url NoBody) s)))"

definition voice_after_fetch :: "'n runtime \<Rightarrow> 'n fetched \<Rightarrow> 'n block" where
  "voice_after_fetch rt r s =
     (case r of
        Rejected err \<Rightarrow> (Some err, s)
      | Body data \<Rightarrow>
          (case get_prop data (lit ''audio_url'') of
             Inl err \<Rightarrow> (Some err, s)
           | Inr u \<Rightarrow>
               if truthy rt u then
                 (case to_string rt u of
                    Inl err \<Rightarrow> (Some err, s)
                  | Inr src \<Rightarrow> (None, emit (AudioPlay src) s))
               else (None, s)))"

definition playResultVoice_resumed ::
  "'n runtime \<Rightarrow> 'n fetched \<Rightarrow> 'n page \<Rightarrow> progress \<times> 'n page" where
  "playResultVoice_resumed rt r s = settled (catch_with voice_catch (voice_after_fetch rt r s))"

section \<open>4. UI helpers\<close>

definition closeResult :: "'n page \<Rightarrow> 'n page" where
  "closeResult s = set_overlay_hidden True s"

text \<open>
  The \<open>keypress\<close> handler of the query input; its argument is \<open>e.key\<close>. The result is the
  progress of the call it makes, or \<open>Returned\<close> when it makes none.
\<close>

definition user_query_keypress :: "jsstring \<Rightarrow> 'n page \<Rightarrow> progress \<times> 'n page" where
  "user_query_keypress key s = (if key = lit ''Enter'' then sendChatMessage s else (Returned, s))"

section \<open>The lifetime of the page\<close>

text \<open>
  The browser runs one handler at a time. Between two handlers the user may edit the query
  field or pick another language, and a request in flight may settle, which resumes the
  function that awaits it. \<open>inflight\<close> lists the suspended functions.
\<close>

datatype awaiting = ChatCall | ScanCall | VoiceCall

record 'n world =
  page :: "'n page"
  inflight :: "awaiting list"

datatype 'n event =
    QueryEdited jsstring
  | LanguageSelected jsstring
  | SendInvoked
  | KeyPressed jsstring
  | CameraChanged "jsfile option"
  | PlayInvoked
  | CloseInvoked
  | Settled nat "'n fetched"

definition started :: "awaiting \<Rightarrow> progress \<times> 'n page \<Rightarrow> 'n world \<Rightarrow> 'n world" where
  "started k r w =
     \<lparr>page = snd r, inflight = (if fst r = Awaiting then inflight w @ [k] else inflight w)\<rparr>"

definition resume :: "'n runtime \<Rightarrow> awaiting \<Rightarrow> 'n fetched \<Rightarrow> 'n page \<Rightarrow> progress \<times> 'n page" where
  "resume rt k r s =
     (case k of
        ChatCall \<Rightarrow> sendChatMessage_resumed rt r s
      | ScanCall \<Rightarrow> camera_input_change_resumed rt r s
      | VoiceCall \<Rightarrow> playResultVoice_resumed rt r s)"

fun step :: "'n runtime \<Rightarrow> 'n event \<Rightarrow> 'n world \<Rightarrow> 'n world" where
  "step rt (QueryEdited v) w = w\<lparr>page := (page w)\<lparr>user_query_value := v\<rparr>\<rparr>"
| "step rt (LanguageSelected v) w = w\<lparr>page := (page w)\<lparr>lang_selector_value := v\<rparr>\<rparr>"
| "step rt SendInvoked w = started ChatCall (sendChatMessage (page w)) w"
| "step rt (KeyPressed key) w = started ChatCall (user_query_keypress key (page w)) w"
| "step rt (CameraChanged selected) w = started ScanCall (camera_input_change selected (page w)) w"
| "step rt PlayInvoked w = started VoiceCall (playResultVoice rt (page w)) w"
| "step rt CloseInvoked w = w\<lparr>page := closeResult (page w)\<rparr>"
| "step rt (Settled i r) w =
     (if i < length (inflight w)
      then \<lparr>page = snd (resume rt (inflight w ! i) r (page w)),
            inflight = take i (inflight w) @ drop (Suc i) (inflight w)\<rparr>
      else w)"

text \<open>
  Lines 16, 27 and 36 assign markup to \<open>chatBox.innerHTML\<close>, and lines 16 and 27 put the
  query and \<open>data.text\<close> into it as they are. The browser parses what is assigned, and an
  element of the markup that has an id becomes a property of \<open>window\<close> under that id (named
  access) for as long as the script has not assigned a property of that name itself. The
  parser and the lookup belong to the browser and are a parameter: \<open>named markup name\<close> is
  what named access finds under \<open>name\<close> once the chat box has received \<open>markup\<close>, given as the
  text \<open>ToString\<close> yields for the object found. The rest of the document is taken to hold
  no element under the two names the script reads.
\<close>

type_synonym named_lookup = "jsstring \<Rightarrow> jsstring \<Rightarrow> jsstring option"

definition global_id :: "global_name \<Rightarrow> jsstring" where
  "global_id g = (case g of CurrentScanText \<Rightarrow> lit ''currentScanText''
                          | CurrentScanLang \<Rightarrow> lit ''currentScanLang'')"

text \<open>The script has assigned \<open>window.g\<close>: the log of effects holds the assignment.\<close>

definition assigned :: "global_name \<Rightarrow> 'n page \<Rightarrow> bool" where
  "assigned g s = list_ex (\<lambda>e. case e of SetWindow g' v \<Rightarrow> g' = g | _ \<Rightarrow> False) (effects s)"

text \<open>What the expression \<open>window.g\<close> evaluates to, \<open>own\<close> being the value last assigned.\<close>

definition window_get :: "named_lookup \<Rightarrow> global_name \<Rightarrow> 'n jsval \<Rightarrow> 'n page \<Rightarrow> 'n jsval" where
  "window_get named g own s =
     (if assigned g s then own
      else case named (chat_box_innerHTML s) (global_id g) of
             Some t \<Rightarrow> VHost t
           | None \<Rightarrow> VUndefined)"

text \<open>
  The two globals as the next handler will read them. No handler reads a global after it
  has assigned markup, so it is enough to look the names up when a handler has run.
\<close>

definition named_access :: "named_lookup \<Rightarrow> 'n page \<Rightarrow> 'n page" where
  "named_access named s =
     s\<lparr>currentScanText := window_get named CurrentScanText (currentScanText s) s,
       currentScanLang := window_get named CurrentScanLang (currentScanLang s) s\<rparr>"

definition browser_step :: "'n runtime \<Rightarrow> named_lookup \<Rightarrow> 'n event \<Rightarrow> 'n world \<Rightarrow> 'n world" where
  "browser_step rt named e w =
     (let w' = step rt e w in w'\<lparr>page := named_access named (page w')\<rparr>)"

fun run :: "'n runtime \<Rightarrow> named_lookup \<Rightarrow> 'n event list \<Rightarrow> 'n world \<Rightarrow> 'n world" where
  "run rt named [] w = w"
| "run rt named (e # es) w = run rt named es (browser_step rt named e w)"

text \<open>
  A successful scan completes at the event that settles a scan request with a body whose
  \<open>status\<close> is \<open>"success"\<close>.
\<close>

fun scan_succeeds :: "'n world \<Rightarrow> 'n event \<Rightarrow> bool" where
  "scan_succeeds w (Settled i (Body data)) =
     (i < length (inflight w) \<and> inflight w ! i = ScanCall
      \<and> get_prop data (lit ''status'') = Inr (VStr (lit ''success'')))"
| "scan_succeeds w e = False"

fun scan_succeeded :: "'n runtime \<Rightarrow> named_lookup \<Rightarrow> 'n event list \<Rightarrow> 'n world \<Rightarrow> bool" where
  "scan_succeeded rt named [] w = False"
| "scan_succeeded rt named (e # es) w =
     (scan_succeeds w e \<or> scan_succeeded rt named es (browser_step rt named e w))"

section \<open>Concrete inputs\<close>

text \<open>
  A runtime for the examples: a number is held as the decimal text that \<open>Number::toString\<close>
  gives for it, which is all the script observes of a number besides its truthiness. Both
  zeros have the text \<open>0\<close>, and \<open>NaN\<close> the text \<open>NaN\<close>; these are the falsy numbers.
\<close>

definition decimal_runtime :: "string runtime" where
  "decimal_runtime =
     \<lparr>num_to_string = (\<lambda>n. n), num_truthy = (\<lambda>n. n \<noteq> ''0'' \<and> n \<noteq> ''NaN'')\<rparr>"

text \<open>A page on which nothing is displayed, staged or done yet, for the examples.\<close>

definition page_at_load :: "jsstring \<Rightarrow> jsstring \<Rightarrow> 'n page" where
  "page_at_load query lang =
     \<lparr>user_query_value = query, chat_box_innerHTML = [], lang_selector_value = lang,
      scan_overlay_hidden = True, landmark_name_innerText = [], landmark_desc_innerText = [],
      map_link_href = [], currentScanText = VUndefined, currentScanLang = VUndefined,
      effects = []\<rparr>"

text \<open>A query that is markup: one element, whose id is the name of the staged text.\<close>

definition markup_query :: jsstring where
  "markup_query = lit ''<b id=currentScanText>x</b>''"

text \<open>The page just loaded, with \<open>ta\<close> selected and no request in flight.\<close>

definition loaded :: "'n world" where
  "loaded = \<lparr>page = page_at_load [] (lit ''ta''), inflight = []\<rparr>"

text \<open>A lookup that knows the one element of \<open>markup_query\<close> and nothing else.\<close>

definition markup_query_lookup :: named_lookup where
  "markup_query_lookup markup name =
     (if markup = user_msg markup_query \<and> name = lit ''currentScanText''
      then Some (lit ''[object HTMLElement]'') else None)"


section \<open>The built-ins on examples\<close>

lemmas writes =
  emit_def set_user_query_value_def set_chat_box_innerHTML_def set_landmark_name_def
  set_landmark_desc_def set_map_link_href_def set_overlay_hidden_def
  set_currentScanText_def set_currentScanLang_def

lemmas encoder =
  lit_def uri_unreserved_def high_surrogate_def low_surrogate_def percent_octets_def
  utf8_def hex_digit_def pair_code_point_def

lemma encodeURIComponent_reserved:
  "encodeURIComponent (lit ''a b&c'') = Inr (lit ''a%20b%26c'')"
  by (simp add: encoder)

lemma encodeURIComponent_tamil: "encodeURIComponent [0x0BA4] = Inr (lit ''%E0%AE%A4'')"
  by (simp add: encoder)

lemma encodeURIComponent_pair: "encodeURIComponent [0xD83D, 0xDE00] = Inr (lit ''%F0%9F%98%80'')"
  by (simp add: encoder)

lemma encodeURIComponent_lone_surrogate: "encodeURIComponent [0x61, 0xD800] = Inl URIError"
  by (simp add: encoder)

lemma encodeURIComponent_no_surrogates:
  "\<forall>c\<in>set s. \<not> high_surrogate c \<and> \<not> low_surrogate c \<Longrightarrow> \<exists>e. encodeURIComponent s = Inr e"
proof (induction s rule: encodeURIComponent.induct)
  case 1
  show ?case by simp
next
  case (2 c)
  then show ?case by simp
next
  case (3 c d ds)
  then have "\<exists>e. encodeURIComponent (d # ds) = Inr e"
    by (cases "uri_unreserved c") simp_all
  then obtain e where "encodeURIComponent (d # ds) = Inr e" ..
  with "3.prems" show ?case by simp
qed

lemma trim_blank: "(\<forall>c\<in>set v. js_whitespace c) \<Longrightarrow> trim v = []"
proof -
  assume "\<forall>c\<in>set v. js_whitespace c"
  then have h: "dropWhile js_whitespace v = []" by simp
  show ?thesis unfolding trim_def h by simp
qed

lemma trim_example: "trim (lit ''  hi there '') = lit ''hi there''"
  by (simp add: lit_def trim_def js_whitespace_def)

section \<open>Chat\<close>

text \<open>
  C2. When the query field holds only whitespace (or nothing), \<open>sendChatMessage\<close> returns at
  once and leaves the page as it was: no request, no write to the chat log or to the input
  field, nothing in the log of effects.
\<close>

theorem sendChatMessage_blank_is_noop:
  "\<forall>c\<in>set (user_query_value s). js_whitespace c \<Longrightarrow> sendChatMessage s = (Returned, s)"
  by (simp add: sendChatMessage_def trim_blank)

theorem sendChatMessage_blank_is_noop_witness:
  "list_all js_whitespace (user_query_value (page_at_load (lit '' '') (lit ''ta'') :: string page))
   \<and> sendChatMessage (page_at_load (lit '' '') (lit ''ta'') :: string page)
       = (Returned, page_at_load (lit '' '') (lit ''ta''))"
  using sendChatMessage_blank_is_noop [of "page_at_load (lit '' '') (lit ''ta'') :: string page"]
  by (simp add: page_at_load_def lit_def js_whitespace_def)

text \<open>
  C3, as stated, fails: the user line shows the trimmed query, not the text as typed. With
  \<open>" hi "\<close> in the field the chat log receives the line for \<open>"hi"\<close>.
\<close>

theorem sendChatMessage_user_line_not_as_typed:
  "user_query_value (page_at_load (lit '' hi '') (lit ''ta'') :: string page) \<noteq> []
   \<and> chat_box_innerHTML (snd (sendChatMessage (page_at_load (lit '' hi '') (lit ''ta'') :: string page)))
       = user_msg (lit ''hi'')
   \<and> chat_box_innerHTML (snd (sendChatMessage (page_at_load (lit '' hi '') (lit ''ta'') :: string page)))
       \<noteq> chat_box_innerHTML (page_at_load (lit '' hi '') (lit ''ta'') :: string page)
           @ user_msg (user_query_value (page_at_load (lit '' hi '') (lit ''ta'') :: string page))"
  by (simp add: sendChatMessage_def page_at_load_def lit_def trim_def js_whitespace_def
      uri_unreserved_def user_msg_def writes)

text \<open>
  C3, amended. When the trimmed query is not empty, \<open>sendChatMessage\<close> first appends to the
  chat log a user line showing the trimmed query, then clears the input field. When
  \<open>encodeURIComponent\<close> accepts the trimmed query, the request to the assistant follows,
  carrying the encoded trimmed query and the selected language, and the function awaits it;
  these three are then all it did.
\<close>

theorem sendChatMessage_user_line_trimmed:
  assumes "trim (user_query_value s) \<noteq> []"
  shows "(\<exists>rest. effects (snd (sendChatMessage s)) =
            effects s @
              [SetInnerHTML ChatBox (chat_box_innerHTML s @ user_msg (trim (user_query_value s))),
               SetValue UserQuery []] @ rest)
         \<and> (\<forall>q. encodeURIComponent (trim (user_query_value s)) = Inr q \<longrightarrow>
              sendChatMessage s =
                (Awaiting,
                 s\<lparr>user_query_value := [],
                   chat_box_innerHTML := chat_box_innerHTML s @ user_msg (trim (user_query_value s)),
                   effects := effects s @
                     [SetInnerHTML ChatBox (chat_box_innerHTML s @ user_msg (trim (user_query_value s))),
                      SetValue UserQuery [],
                      Fetch POST
                        (lit ''/api/chatbot/ask?query='' @ q @ lit ''&lang='' @ lang_selector_value s)
                        NoBody]\<rparr>))"
  using assms
  by (simp add: sendChatMessage_def chat_catch_def ask_url_def writes Let_def split: sum.splits)

theorem sendChatMessage_user_line_trimmed_witness:
  "trim (user_query_value (page_at_load (lit '' hi '') (lit ''ta'') :: string page)) \<noteq> []
   \<and> encodeURIComponent (trim (user_query_value (page_at_load (lit '' hi '') (lit ''ta'') :: string page)))
       = Inr (lit ''hi'')
   \<and> sendChatMessage (page_at_load (lit '' hi '') (lit ''ta'') :: string page) =
       (Awaiting,
        (page_at_load [] (lit ''ta''))\<lparr>chat_box_innerHTML := user_msg (lit ''hi''),
          effects := [SetInnerHTML ChatBox (user_msg (lit ''hi'')), SetValue UserQuery [],
                      Fetch POST (lit ''/api/chatbot/ask?query=hi&lang=ta'') NoBody]\<rparr>)"
proof -
  have t: "trim (lit '' hi '') = lit ''hi''"
    by (simp add: lit_def trim_def js_whitespace_def)
  have e: "encodeURIComponent (lit ''hi'') = Inr (lit ''hi'')"
    by (simp add: lit_def uri_unreserved_def)
  from sendChatMessage_user_line_trimmed [of "page_at_load (lit '' hi '') (lit ''ta'') :: string page"] t e
  show ?thesis
    by (simp add: page_at_load_def) (simp add: lit_def)
qed

text \<open>
  C4. When the request settles with a body whose \<open>status\<close> can be read and is not
  \<open>"success"\<close>, the resumed \<open>sendChatMessage\<close> returns and leaves the page as it found it: no
  assistant line, no other effect. What the call did before it awaited (the user line, the
  cleared field) is all that remains of it.
\<close>

theorem chat_other_status_appends_nothing:
  assumes "get_prop data (lit ''status'') = Inr st" and "st \<noteq> VStr (lit ''success'')"
  shows "sendChatMessage_resumed rt (Body data) s = (Returned, s)"
  using assms by (simp add: sendChatMessage_resumed_def chat_after_fetch_def)

theorem chat_other_status_appends_nothing_witness:
  "get_prop (VObj [(lit ''status'', VStr (lit ''error''))] :: string jsval) (lit ''status'')
     = Inr (VStr (lit ''error''))
   \<and> VStr (lit ''error'') \<noteq> (VStr (lit ''success'') :: string jsval)
   \<and> sendChatMessage_resumed decimal_runtime (Body (VObj [(lit ''status'', VStr (lit ''error''))]))
        (page_at_load [] (lit ''ta'')) = (Returned, page_at_load [] (lit ''ta''))"
  using chat_other_status_appends_nothing
      [of "VObj [(lit ''status'', VStr (lit ''error''))] :: string jsval" "VStr (lit ''error'')"
      decimal_runtime "page_at_load [] (lit ''ta'')"]
  by (simp add: lit_def)

text \<open>
  A body that is \<open>null\<close> has no \<open>status\<close> to read: the access raises \<open>TypeError\<close>, which the
  function catches, and the chat log receives the error line.
\<close>

lemma chat_null_body_is_caught:
  "sendChatMessage_resumed rt (Body VNull) s =
     (Returned,
      s\<lparr>chat_box_innerHTML := chat_box_innerHTML s @ bot_msg_error,
        effects := effects s @
          [ConsoleError (lit ''Chat Error:'') TypeError,
           SetInnerHTML ChatBox (chat_box_innerHTML s @ bot_msg_error)]\<rparr>)"
  by (simp add: sendChatMessage_resumed_def chat_after_fetch_def chat_catch_def writes)

text \<open>
  C9. On the key \<open>"Enter"\<close> the keypress handler does exactly what a direct call of
  \<open>sendChatMessage\<close> does, in every state of the page: the same writes, the same request,
  the same suspended call left to be resumed.
\<close>

theorem enter_key_is_sendChatMessage:
  "user_query_keypress (lit ''Enter'') s = sendChatMessage s
   \<and> step rt (KeyPressed (lit ''Enter'')) w = step rt SendInvoked w"
  by (simp add: user_query_keypress_def)

theorem enter_key_is_sendChatMessage_witness:
  "user_query_keypress (lit ''Enter'') (page_at_load (lit ''hi'') (lit ''ta'') :: string page) =
     (Awaiting,
      (page_at_load [] (lit ''ta''))\<lparr>chat_box_innerHTML := user_msg (lit ''hi''),
         effects := [SetInnerHTML ChatBox (user_msg (lit ''hi'')), SetValue UserQuery [],
                     Fetch POST (lit ''/api/chatbot/ask?query=hi&lang=ta'') NoBody]\<rparr>)"
proof -
  have "sendChatMessage (page_at_load (lit ''hi'') (lit ''ta'') :: string page) =
     (Awaiting,
      (page_at_load [] (lit ''ta''))\<lparr>chat_box_innerHTML := user_msg (lit ''hi''),
         effects := [SetInnerHTML ChatBox (user_msg (lit ''hi'')), SetValue UserQuery [],
                     Fetch POST (lit ''/api/chatbot/ask?query=hi&lang=ta'') NoBody]\<rparr>)"
    by (simp add: sendChatMessage_def page_at_load_def lit_def trim_def js_whitespace_def
        uri_unreserved_def ask_url_def writes Let_def)
  with enter_key_is_sendChatMessage
      [of "page_at_load (lit ''hi'') (lit ''ta'') :: string page" decimal_runtime
          "\<lparr>page = page_at_load (lit ''hi'') (lit ''ta''), inflight = []\<rparr>"]
  show ?thesis by simp
qed

section \<open>Image recognition\<close>

text \<open>
  C1. When the scan request settles with a body of status \<open>"success"\<close> that carries a name
  \<open>n\<close>, a history \<open>h\<close> and coordinates with numbers \<open>lat\<close> and \<open>lng\<close>, the handler displays
  \<open>n\<close> as the landmark name and \<open>h\<close> as its description, sets the map link to the directions
  URL ending in \<open>destination=<lat>,<lng>\<close> with the two numbers converted as they are, and
  stages \<open>h\<close> with the language selector's current value for playback. It does nothing else.
\<close>

theorem scan_success_shows_result:
  assumes "get_prop data (lit ''status'') = Inr (VStr (lit ''success''))"
    and "get_prop data (lit ''name'') = Inr (VStr n)"
    and "get_prop data (lit ''history'') = Inr (VStr h)"
    and "get_prop data (lit ''coordinates'') = Inr c"
    and "get_prop c (lit ''lat'') = Inr (VNum lat)"
    and "get_prop c (lit ''lng'') = Inr (VNum lng)"
  shows "camera_input_change_resumed rt (Body data) s =
     (Returned,
      s\<lparr>landmark_name_innerText := n,
        landmark_desc_innerText := h,
        map_link_href := lit ''https://www.google.com/maps/dir/?api=1&destination=''
           @ lit (num_to_string rt lat) @ lit '','' @ lit (num_to_string rt lng),
        currentScanText := VStr h,
        currentScanLang := VStr (lang_selector_value s),
        effects := effects s @
          [SetInnerText LandmarkName n, SetInnerText LandmarkDesc h,
           SetHref MapLink (lit ''https://www.google.com/maps/dir/?api=1&destination=''
             @ lit (num_to_string rt lat) @ lit '','' @ lit (num_to_string rt lng)),
           SetWindow CurrentScanText (VStr h),
           SetWindow CurrentScanLang (VStr (lang_selector_value s))]\<rparr>)"
  using assms
  by (simp add: camera_input_change_resumed_def scan_after_fetch_def scan_success_def
      prop_text_def directions_url_def directions_prefix_def writes)

theorem scan_success_shows_result_witness:
  "camera_input_change_resumed decimal_runtime
     (Body (VObj [(lit ''status'', VStr (lit ''success'')), (lit ''name'', VStr (lit ''Big Temple'')),
                  (lit ''history'', VStr (lit ''...'')),
                  (lit ''coordinates'', VObj [(lit ''lat'', VNum ''11.1''), (lit ''lng'', VNum ''78.2'')])]))
     (page_at_load [] (lit ''ta''))
   = (Returned,
      (page_at_load [] (lit ''ta''))\<lparr>landmark_name_innerText := lit ''Big Temple'',
        landmark_desc_innerText := lit ''...'',
        map_link_href := lit ''https://www.google.com/maps/dir/?api=1&destination=11.1,78.2'',
        currentScanText := VStr (lit ''...''),
        currentScanLang := VStr (lit ''ta''),
        effects :=
          [SetInnerText LandmarkName (lit ''Big Temple''), SetInnerText LandmarkDesc (lit ''...''),
           SetHref MapLink (lit ''https://www.google.com/maps/dir/?api=1&destination=11.1,78.2''),
           SetWindow CurrentScanText (VStr (lit ''...'')),
           SetWindow CurrentScanLang (VStr (lit ''ta''))]\<rparr>)"
  using scan_success_shows_result
      [of "VObj [(lit ''status'', VStr (lit ''success'')), (lit ''name'', VStr (lit ''Big Temple'')),
                  (lit ''history'', VStr (lit ''...'')),
                  (lit ''coordinates'', VObj [(lit ''lat'', VNum ''11.1''), (lit ''lng'', VNum ''78.2'')])]"
       "lit ''Big Temple''" "lit ''...''" "VObj [(lit ''lat'', VNum ''11.1''), (lit ''lng'', VNum ''78.2'')]"
       "''11.1''" "''78.2''" decimal_runtime "page_at_load [] (lit ''ta'')"]
  by (simp add: page_at_load_def lit_def decimal_runtime_def)

text \<open>
  C5. When the scan request settles with a body whose status is not \<open>"success"\<close> and that
  carries a message \<open>m\<close>, the handler displays \<open>"Unknown Landmark"\<close> as the name and \<open>m\<close> as
  the description, and changes nothing else: the staged text and language stay as they were.
\<close>

theorem scan_other_status_unknown_landmark:
  assumes "get_prop data (lit ''status'') \<noteq> Inr (VStr (lit ''success''))"
    and "get_prop data (lit ''message'') = Inr (VStr m)"
  shows "camera_input_change_resumed rt (Body data) s =
     (Returned,
      s\<lparr>landmark_name_innerText := lit ''Unknown Landmark'',
        landmark_desc_innerText := m,
        effects := effects s @
          [SetInnerText LandmarkName (lit ''Unknown Landmark''), SetInnerText LandmarkDesc m]\<rparr>)"
proof -
  from assms(2) obtain kvs where "data = VObj kvs" by (cases data) auto
  with assms show ?thesis
    by (simp add: camera_input_change_resumed_def scan_after_fetch_def scan_other_def
        prop_text_def writes)
qed

theorem scan_other_status_unknown_landmark_witness:
  "get_prop (VObj [(lit ''status'', VStr (lit ''error'')), (lit ''message'', VStr (lit ''no match''))]
       :: string jsval) (lit ''status'') \<noteq> Inr (VStr (lit ''success''))
   \<and> camera_input_change_resumed decimal_runtime
        (Body (VObj [(lit ''status'', VStr (lit ''error'')), (lit ''message'', VStr (lit ''no match''))]))
        ((page_at_load [] (lit ''ta''))\<lparr>currentScanText := VStr (lit ''old'')\<rparr>)
      = (Returned,
         (page_at_load [] (lit ''ta''))\<lparr>landmark_name_innerText := lit ''Unknown Landmark'',
            landmark_desc_innerText := lit ''no match'',
            currentScanText := VStr (lit ''old''),
            effects := [SetInnerText LandmarkName (lit ''Unknown Landmark''),
                        SetInnerText LandmarkDesc (lit ''no match'')]\<rparr>)"
  using scan_other_status_unknown_landmark
      [of "VObj [(lit ''status'', VStr (lit ''error'')), (lit ''message'', VStr (lit ''no match''))]
       :: string jsval" "lit ''no match''" decimal_runtime
       "(page_at_load [] (lit ''ta''))\<lparr>currentScanText := VStr (lit ''old'')\<rparr>"]
  by (simp add: lit_def page_at_load_def)

text \<open>
  C6. When the scan request or the decoding of its body fails, the handler catches the
  failure and returns normally: it records the error on the console, displays \<open>"Error"\<close> as
  the name and \<open>"Could not reach the vision server."\<close> as the description, and changes
  nothing else, so the staged text and language stay as they were.
\<close>

theorem scan_failure_is_caught:
  "camera_input_change_resumed rt (Rejected err) s =
     (Returned,
      s\<lparr>landmark_name_innerText := lit ''Error'',
        landmark_desc_innerText := lit ''Could not reach the vision server.'',
        effects := effects s @
          [ConsoleError (lit ''Scan Error:'') err,
           SetInnerText LandmarkName (lit ''Error''),
           SetInnerText LandmarkDesc (lit ''Could not reach the vision server.'')]\<rparr>)"
  by (simp add: camera_input_change_resumed_def scan_after_fetch_def scan_catch_def writes)

theorem scan_failure_is_caught_witness:
  "currentScanText (snd (camera_input_change_resumed decimal_runtime (Rejected TypeError)
      ((page_at_load [] (lit ''ta''))\<lparr>currentScanText := VStr (lit ''old'')\<rparr>))) = VStr (lit ''old'')
   \<and> fst (camera_input_change_resumed decimal_runtime (Rejected TypeError)
      ((page_at_load [] (lit ''ta''))\<lparr>currentScanText := VStr (lit ''old'')\<rparr>)) = Returned"
  using scan_failure_is_caught [of decimal_runtime TypeError
      "(page_at_load [] (lit ''ta''))\<lparr>currentScanText := VStr (lit ''old'')\<rparr>"]
  by simp

text \<open>
  C10, as stated, fails: coordinates that are an object without \<open>lat\<close> and \<open>lng\<close> raise
  nothing. With \<open>coordinates: {}\<close> the handler keeps the name and description of the
  response, links to \<open>destination=undefined,undefined\<close> and stages the history.
\<close>

theorem scan_success_empty_coordinates_not_caught:
  "camera_input_change_resumed decimal_runtime
     (Body (VObj [(lit ''status'', VStr (lit ''success'')), (lit ''name'', VStr (lit ''A'')),
                  (lit ''history'', VStr (lit ''h'')), (lit ''coordinates'', VObj [])]))
     (page_at_load [] (lit ''ta''))
   = (Returned,
      (page_at_load [] (lit ''ta''))\<lparr>landmark_name_innerText := lit ''A'',
        landmark_desc_innerText := lit ''h'',
        map_link_href := lit ''https://www.google.com/maps/dir/?api=1&destination=undefined,undefined'',
        currentScanText := VStr (lit ''h''),
        currentScanLang := VStr (lit ''ta''),
        effects :=
          [SetInnerText LandmarkName (lit ''A''), SetInnerText LandmarkDesc (lit ''h''),
           SetHref MapLink (lit ''https://www.google.com/maps/dir/?api=1&destination=undefined,undefined''),
           SetWindow CurrentScanText (VStr (lit ''h'')),
           SetWindow CurrentScanLang (VStr (lit ''ta''))]\<rparr>)"
  by (simp add: camera_input_change_resumed_def scan_after_fetch_def scan_success_def
      prop_text_def directions_url_def directions_prefix_def writes page_at_load_def lit_def)

text \<open>
  C10, amended. When the scan request settles with a body of status \<open>"success"\<close>, with a name
  and a history, whose \<open>coordinates\<close> are absent or \<open>null\<close>, the \<open>TypeError\<close> raised while the
  map link is built is caught by the handler, which returns normally: the name and the
  description written from the response are overwritten by \<open>"Error"\<close> and
  \<open>"Could not reach the vision server."\<close>, and the map link, the staged text and the staged
  language stay as they were.
\<close>

theorem scan_success_without_coordinates_is_caught:
  assumes "get_prop data (lit ''status'') = Inr (VStr (lit ''success''))"
    and "get_prop data (lit ''name'') = Inr (VStr n)"
    and "get_prop data (lit ''history'') = Inr (VStr h)"
    and "get_prop data (lit ''coordinates'') = Inr c"
    and "c = VUndefined \<or> c = VNull"
  shows "camera_input_change_resumed rt (Body data) s =
     (Returned,
      s\<lparr>landmark_name_innerText := lit ''Error'',
        landmark_desc_innerText := lit ''Could not reach the vision server.'',
        effects := effects s @
          [SetInnerText LandmarkName n, SetInnerText LandmarkDesc h,
           ConsoleError (lit ''Scan Error:'') TypeError,
           SetInnerText LandmarkName (lit ''Error''),
           SetInnerText LandmarkDesc (lit ''Could not reach the vision server.'')]\<rparr>)"
  using assms
  by (auto simp add: camera_input_change_resumed_def scan_after_fetch_def scan_success_def
      prop_text_def directions_url_def scan_catch_def writes)

theorem scan_success_without_coordinates_is_caught_witness:
  "camera_input_change_resumed decimal_runtime
     (Body (VObj [(lit ''status'', VStr (lit ''success'')), (lit ''name'', VStr (lit ''A'')),
                  (lit ''history'', VStr (lit ''h''))]))
     ((page_at_load [] (lit ''ta''))\<lparr>currentScanText := VStr (lit ''old'')\<rparr>)
   = (Returned,
      (page_at_load [] (lit ''ta''))\<lparr>landmark_name_innerText := lit ''Error'',
        landmark_desc_innerText := lit ''Could not reach the vision server.'',
        currentScanText := VStr (lit ''old''),
        effects :=
          [SetInnerText LandmarkName (lit ''A''), SetInnerText LandmarkDesc (lit ''h''),
           ConsoleError (lit ''Scan Error:'') TypeError,
           SetInnerText LandmarkName (lit ''Error''),
           SetInnerText LandmarkDesc (lit ''Could not reach the vision server.'')]\<rparr>)"
  using scan_success_without_coordinates_is_caught
      [of "VObj [(lit ''status'', VStr (lit ''success'')), (lit ''name'', VStr (lit ''A'')),
                  (lit ''history'', VStr (lit ''h''))] :: string jsval"
          "lit ''A''" "lit ''h''" VUndefined decimal_runtime
          "(page_at_load [] (lit ''ta''))\<lparr>currentScanText := VStr (lit ''old'')\<rparr>"]
  by (simp add: lit_def page_at_load_def)

section \<open>Voice playback\<close>

text \<open>
  C8, as stated, fails in two places. A response whose \<open>audio_url\<close> is the empty string
  contains the field and yet plays nothing, and a staged text that holds an unpaired
  surrogate is not empty and yet no request is made for it: \<open>encodeURIComponent\<close> raises
  \<open>URIError\<close>, which the function catches and records.
\<close>

theorem voice_empty_url_or_unencodable_text:
  "get_prop (VObj [(lit ''audio_url'', VStr [])] :: string jsval) (lit ''audio_url'') = Inr (VStr [])
   \<and> playResultVoice_resumed decimal_runtime (Body (VObj [(lit ''audio_url'', VStr [])]))
        ((page_at_load [] (lit ''ta''))\<lparr>currentScanText := VStr (lit ''h''),
            currentScanLang := VStr (lit ''ta'')\<rparr>)
      = (Returned, (page_at_load [] (lit ''ta''))\<lparr>currentScanText := VStr (lit ''h''),
            currentScanLang := VStr (lit ''ta'')\<rparr>)
   \<and> playResultVoice decimal_runtime
        ((page_at_load [] (lit ''ta''))\<lparr>currentScanText := VStr [0xD800],
            currentScanLang := VStr (lit ''ta'')\<rparr>)
      = (Returned, (page_at_load [] (lit ''ta''))\<lparr>currentScanText := VStr [0xD800],
            currentScanLang := VStr (lit ''ta''),
            effects := [ConsoleError (lit ''Voice Error:'') URIError]\<rparr>)"
  by (simp add: playResultVoice_resumed_def voice_after_fetch_def playResultVoice_def
      voice_request_def voice_catch_def writes page_at_load_def high_surrogate_def
      uri_unreserved_def low_surrogate_def decimal_runtime_def)

text \<open>
  C8, amended. When the staged text is a non-empty string that \<open>encodeURIComponent\<close>
  accepts, \<open>playResultVoice\<close> requests synthesis of that text, encoded, in the staged
  language when that is a non-empty string and in \<open>ta\<close> when \<open>currentScanLang\<close> is unset or
  empty, and awaits the answer. When the answer carries a non-empty string as \<open>audio_url\<close>,
  the resumed function plays an audio resource made from exactly that string; when the
  answer has no \<open>audio_url\<close>, it plays nothing and does nothing else.
\<close>

theorem playResultVoice_request_and_playback:
  "(\<forall>t enc. currentScanText s = VStr t \<and> t \<noteq> [] \<and> encodeURIComponent t = Inr enc \<longrightarrow>
      (\<forall>l. currentScanLang s = VStr l \<and> l \<noteq> [] \<longrightarrow>
         playResultVoice rt s =
           (Awaiting, s\<lparr>effects := effects s @
              [Fetch GET (lit ''/api/chatbot/voice-guide?text='' @ enc @ lit ''&lang='' @ l) NoBody]\<rparr>))
      \<and> (currentScanLang s = VUndefined \<or> currentScanLang s = VStr [] \<longrightarrow>
         playResultVoice rt s =
           (Awaiting, s\<lparr>effects := effects s @
              [Fetch GET (lit ''/api/chatbot/voice-guide?text='' @ enc @ lit ''&lang=ta'') NoBody]\<rparr>)))
   \<and> (\<forall>u. get_prop data (lit ''audio_url'') = Inr (VStr u) \<and> u \<noteq> [] \<longrightarrow>
        playResultVoice_resumed rt (Body data) s =
          (Returned, s\<lparr>effects := effects s @ [AudioPlay u]\<rparr>))
   \<and> (get_prop data (lit ''audio_url'') = Inr VUndefined \<longrightarrow>
        playResultVoice_resumed rt (Body data) s = (Returned, s))"
  by (auto simp add: playResultVoice_def voice_request_def voice_url_def playResultVoice_resumed_def
      voice_after_fetch_def writes lit_def)

theorem playResultVoice_request_and_playback_witness:
  "playResultVoice decimal_runtime
      ((page_at_load [] (lit ''ta''))\<lparr>currentScanText := VStr (lit ''a b''),
          currentScanLang := VStr (lit ''en'')\<rparr>)
    = (Awaiting,
       (page_at_load [] (lit ''ta''))\<lparr>currentScanText := VStr (lit ''a b''),
          currentScanLang := VStr (lit ''en''),
          effects := [Fetch GET (lit ''/api/chatbot/voice-guide?text=a%20b&lang=en'') NoBody]\<rparr>)
   \<and> playResultVoice decimal_runtime
      ((page_at_load [] (lit ''en''))\<lparr>currentScanText := VStr (lit ''a b'')\<rparr>)
    = (Awaiting,
       (page_at_load [] (lit ''en''))\<lparr>currentScanText := VStr (lit ''a b''),
          effects := [Fetch GET (lit ''/api/chatbot/voice-guide?text=a%20b&lang=ta'') NoBody]\<rparr>)
   \<and> playResultVoice_resumed decimal_runtime
        (Body (VObj [(lit ''audio_url'', VStr (lit ''http://x/a.mp3''))]))
        (page_at_load [] (lit ''ta''))
    = (Returned, (page_at_load [] (lit ''ta''))\<lparr>effects := [AudioPlay (lit ''http://x/a.mp3'')]\<rparr>)
   \<and> playResultVoice_resumed decimal_runtime (Body (VObj [])) (page_at_load [] (lit ''ta''))
    = (Returned, page_at_load [] (lit ''ta''))"
proof -
  let ?s1 = "(page_at_load [] (lit ''ta''))\<lparr>currentScanText := VStr (lit ''a b''),
          currentScanLang := VStr (lit ''en'')\<rparr> :: string page"
  let ?s2 = "(page_at_load [] (lit ''en''))\<lparr>currentScanText := VStr (lit ''a b'')\<rparr> :: string page"
  let ?s3 = "page_at_load [] (lit ''ta'') :: string page"
  let ?d1 = "VObj [(lit ''audio_url'', VStr (lit ''http://x/a.mp3''))] :: string jsval"
  let ?d2 = "VObj [] :: string jsval"
  have e: "encodeURIComponent (lit ''a b'') = Inr (lit ''a%20b'')"
    by (simp add: encoder)
  have a: ?thesis if
    "playResultVoice decimal_runtime ?s1 = (Awaiting, ?s1\<lparr>effects := effects ?s1 @
        [Fetch GET (lit ''/api/chatbot/voice-guide?text='' @ lit ''a%20b'' @ lit ''&lang='' @ lit ''en'')
           NoBody]\<rparr>)"
    "playResultVoice decimal_runtime ?s2 = (Awaiting, ?s2\<lparr>effects := effects ?s2 @
        [Fetch GET (lit ''/api/chatbot/voice-guide?text='' @ lit ''a%20b'' @ lit ''&lang=ta'') NoBody]\<rparr>)"
    "playResultVoice_resumed decimal_runtime (Body ?d1) ?s3 =
        (Returned, ?s3\<lparr>effects := effects ?s3 @ [AudioPlay (lit ''http://x/a.mp3'')]\<rparr>)"
    "playResultVoice_resumed decimal_runtime (Body ?d2) ?s3 = (Returned, ?s3)"
    using that by (simp add: page_at_load_def lit_def)
  show ?thesis
  proof (rule a)
    show "playResultVoice decimal_runtime ?s1 = (Awaiting, ?s1\<lparr>effects := effects ?s1 @
        [Fetch GET (lit ''/api/chatbot/voice-guide?text='' @ lit ''a%20b'' @ lit ''&lang='' @ lit ''en'')
           NoBody]\<rparr>)"
      using playResultVoice_request_and_playback [of ?s1 decimal_runtime ?d1] e
      by (simp add: page_at_load_def lit_def)
    show "playResultVoice decimal_runtime ?s2 = (Awaiting, ?s2\<lparr>effects := effects ?s2 @
        [Fetch GET (lit ''/api/chatbot/voice-guide?text='' @ lit ''a%20b'' @ lit ''&lang=ta'') NoBody]\<rparr>)"
      using playResultVoice_request_and_playback [of ?s2 decimal_runtime ?d1] e
      by (simp add: page_at_load_def lit_def)
    show "playResultVoice_resumed decimal_runtime (Body ?d1) ?s3 =
        (Returned, ?s3\<lparr>effects := effects ?s3 @ [AudioPlay (lit ''http://x/a.mp3'')]\<rparr>)"
      using playResultVoice_request_and_playback [of ?s3 decimal_runtime ?d1] by (simp add: lit_def)
    show "playResultVoice_resumed decimal_runtime (Body ?d2) ?s3 = (Returned, ?s3)"
      using playResultVoice_request_and_playback [of ?s3 decimal_runtime ?d2] by simp
  qed
qed

section \<open>The staged text over the lifetime of the page\<close>

text \<open>
  C7 fails on the code. On the page just loaded, the user types \<open><b id=currentScanText>x</b>\<close>
  into the query field and sends it, then asks for playback. Line 16 puts the query into
  the chat log as markup, so the document now holds an element with the id
  \<open>currentScanText\<close>. The script has never assigned \<open>window.currentScanText\<close>, so line 86 reads
  that element: the staged text is non-empty although no scan has succeeded, and
  \<open>playResultVoice\<close> requests speech for the text \<open>[object HTMLElement]\<close>. The two hypotheses say
  what the browser finds under the two names in the chat log of this run.
\<close>

theorem chat_markup_stages_text_without_scan:
  assumes "named (user_msg markup_query) (lit ''currentScanText'') = Some (lit ''[object HTMLElement]'')"
    and "named (user_msg markup_query) (lit ''currentScanLang'') = None"
  shows "\<not> scan_succeeded rt named [QueryEdited markup_query, SendInvoked, PlayInvoked] loaded
       \<and> currentScanText (page (run rt named [QueryEdited markup_query, SendInvoked] loaded))
           = VHost (lit ''[object HTMLElement]'')
       \<and> truthy rt (currentScanText (page (run rt named [QueryEdited markup_query, SendInvoked] loaded)))
       \<and> effects (page (run rt named [QueryEdited markup_query, SendInvoked, PlayInvoked] loaded))
           = [SetInnerHTML ChatBox (user_msg markup_query),
              SetValue UserQuery [],
              Fetch POST
                (lit ''/api/chatbot/ask?query=%3Cb%20id%3DcurrentScanText%3Ex%3C%2Fb%3E&lang=ta'') NoBody,
              Fetch GET
                (lit ''/api/chatbot/voice-guide?text=%5Bobject%20HTMLElement%5D&lang=ta'') NoBody]"
proof -
  have t: "trim markup_query = markup_query"
    by (simp add: markup_query_def lit_def trim_def js_whitespace_def)
  have n: "markup_query \<noteq> []"
    by (simp add: markup_query_def lit_def)
  have q: "encodeURIComponent markup_query = Inr (lit ''%3Cb%20id%3DcurrentScanText%3Ex%3C%2Fb%3E'')"
    by (simp add: markup_query_def encoder)
  have h: "encodeURIComponent (lit ''[object HTMLElement]'') = Inr (lit ''%5Bobject%20HTMLElement%5D'')"
    by (simp add: encoder)
  have sent: "run rt named [QueryEdited markup_query, SendInvoked] loaded =
      \<lparr>page = (page_at_load [] (lit ''ta''))
         \<lparr>chat_box_innerHTML := user_msg markup_query,
          currentScanText := VHost (lit ''[object HTMLElement]''),
          effects := [SetInnerHTML ChatBox (user_msg markup_query), SetValue UserQuery [],
            Fetch POST
              (lit ''/api/chatbot/ask?query=%3Cb%20id%3DcurrentScanText%3Ex%3C%2Fb%3E&lang=ta'') NoBody]\<rparr>,
       inflight = [ChatCall]\<rparr>"
    using assms t n q
    by (simp add: loaded_def browser_step_def named_access_def window_get_def assigned_def
        global_id_def started_def sendChatMessage_def ask_url_def page_at_load_def writes Let_def)
       (simp add: lit_def)
  have played: "effects (page (run rt named [QueryEdited markup_query, SendInvoked, PlayInvoked] loaded))
      = [SetInnerHTML ChatBox (user_msg markup_query), SetValue UserQuery [],
         Fetch POST
           (lit ''/api/chatbot/ask?query=%3Cb%20id%3DcurrentScanText%3Ex%3C%2Fb%3E&lang=ta'') NoBody,
         Fetch GET
           (lit ''/api/chatbot/voice-guide?text=%5Bobject%20HTMLElement%5D&lang=ta'') NoBody]"
  proof -
    have "run rt named [QueryEdited markup_query, SendInvoked, PlayInvoked] loaded =
        browser_step rt named PlayInvoked (run rt named [QueryEdited markup_query, SendInvoked] loaded)"
      by simp
    then show ?thesis
      unfolding sent using h
      by (simp add: browser_step_def named_access_def started_def playResultVoice_def
          voice_request_def voice_url_def page_at_load_def writes Let_def)
         (simp add: lit_def)
  qed
  have none: "\<not> scan_succeeded rt named [QueryEdited markup_query, SendInvoked, PlayInvoked] loaded"
    by simp
  from sent played none show ?thesis by simp
qed

theorem chat_markup_stages_text_without_scan_witness:
  "\<not> scan_succeeded decimal_runtime markup_query_lookup
        [QueryEdited markup_query, SendInvoked, PlayInvoked] loaded
   \<and> truthy decimal_runtime (currentScanText (page (run decimal_runtime markup_query_lookup
        [QueryEdited markup_query, SendInvoked] loaded)))
   \<and> effects (page (run decimal_runtime markup_query_lookup
        [QueryEdited markup_query, SendInvoked, PlayInvoked] loaded))
       = [SetInnerHTML ChatBox (user_msg markup_query),
          SetValue UserQuery [],
          Fetch POST
            (lit ''/api/chatbot/ask?query=%3Cb%20id%3DcurrentScanText%3Ex%3C%2Fb%3E&lang=ta'') NoBody,
          Fetch GET
            (lit ''/api/chatbot/voice-guide?text=%5Bobject%20HTMLElement%5D&lang=ta'') NoBody]"
proof -
  have a: "markup_query_lookup (user_msg markup_query) (lit ''currentScanText'')
      = Some (lit ''[object HTMLElement]'')"
    by (simp add: markup_query_lookup_def)
  have b: "markup_query_lookup (user_msg markup_query) (lit ''currentScanLang'') = None"
    by (simp add: markup_query_lookup_def lit_def)
  from chat_markup_stages_text_without_scan
      [where named = markup_query_lookup and rt = decimal_runtime, OF a b]
  show ?thesis by simp
qed

end
